theory Spec2Isabelle
  imports Complex_Main "HOL-Library.Sublist" "HOL-Library.Multiset"
begin

section \<open>Python values and exceptions\<close>

text \<open>
  The exceptions the two modules can raise.  \<open>NameError\<close> is what Python raises when a
  name is read that no enclosing scope binds.
\<close>

datatype error = TypeError | ValueError | KeyError | NameError

text \<open>
  What a caller can pass as \<open>theta\<close>: a one-dimensional numpy array, a plain Python
  list, or any other object.  Python floats are modelled as real numbers throughout.
\<close>

datatype pyobj = Ndarray "real list" | PyList "real list" | PyNone

fun isinstance_ndarray :: "pyobj \<Rightarrow> bool" where
  "isinstance_ndarray (Ndarray v) = True"
| "isinstance_ndarray (PyList v) = False"
| "isinstance_ndarray PyNone = False"

fun elements :: "pyobj \<Rightarrow> real list" where
  "elements (Ndarray v) = v"
| "elements (PyList v) = v"
| "elements PyNone = []"

text \<open>
  A value stored under a key of the constraints dictionary: a dictionary of named
  numbers (the record \<open>{'lb':, 'ub':, 'mu':, 'sigma':, 'w':}\<close>, any field of which may be
  missing) or a bare float, which the annotation \<open>Dict[str, float]\<close> admits.
  Dictionaries are association lists in insertion order; a Python dictionary has
  distinct keys.
\<close>

datatype pyval = PyDict "(string \<times> real) list" | PyFloat real

fun isinstance_dict :: "pyval \<Rightarrow> bool" where
  "isinstance_dict (PyDict d) = True"
| "isinstance_dict (PyFloat v) = False"

text \<open>\<open>d[k]\<close> on a dictionary: \<open>KeyError\<close> when the key is absent.\<close>

definition getitem :: "('k \<times> 'v) list \<Rightarrow> 'k \<Rightarrow> error + 'v" where
  "getitem d k = (case map_of d k of None \<Rightarrow> Inl KeyError | Some v \<Rightarrow> Inr v)"

text \<open>\<open>v[k]\<close> on a stored value: a float is not subscriptable (\<open>TypeError\<close>).\<close>

fun subscript :: "pyval \<Rightarrow> string \<Rightarrow> error + real" where
  "subscript (PyDict d) k = getitem d k"
| "subscript (PyFloat v) k = Inl TypeError"

text \<open>\<open>sub in s\<close> on strings: \<open>sub\<close> occurs as a contiguous piece of \<open>s\<close>.\<close>

fun contains :: "string \<Rightarrow> string \<Rightarrow> bool" where
  "contains sub [] = (sub = [])"
| "contains sub (c # cs) = (prefix sub (c # cs) \<or> contains sub cs)"

section \<open>numpy primitives\<close>

text \<open>
  \<open>np.argmin\<close>: the index of the first occurrence of the least element, found by one
  scan that replaces the best value only on a strict improvement; \<open>ValueError\<close> on an
  empty array.
\<close>

fun argmin_scan :: "real list \<Rightarrow> nat \<Rightarrow> real \<Rightarrow> nat \<Rightarrow> nat" where
  "argmin_scan [] i best bi = bi"
| "argmin_scan (v # vs) i best bi =
     (if v < best then argmin_scan vs (Suc i) v i else argmin_scan vs (Suc i) best bi)"

definition argmin :: "real list \<Rightarrow> error + nat" where
  "argmin a = (case a of [] \<Rightarrow> Inl ValueError | v # vs \<Rightarrow> Inr (argmin_scan vs 1 v 0))"

text \<open>
  \<open>np.linspace(start, stop, num)\<close> with the end point included: \<open>num\<close> samples
  \<open>start + i * step\<close>, \<open>step = (stop - start) / (num - 1)\<close>.
\<close>

definition linspace :: "real \<Rightarrow> real \<Rightarrow> nat \<Rightarrow> real list" where
  "linspace start stop num =
     map (\<lambda>i. start + real i * ((stop - start) / real (num - 1))) [0..<num]"

section \<open>The likelihood primitive\<close>

text \<open>
  Modelled from the spec: \<open>gaussian_log_likelihood\<close> is imported from the helper module
  \<open>knowledge_constraints._helper\<close>, which is not among the source files.  The
  specification describes it as the natural logarithm of the Gaussian probability
  density with mean \<open>mu\<close> and standard deviation \<open>sigma\<close>, evaluated at \<open>v\<close>.
\<close>

definition gaussian_log_likelihood :: "real \<Rightarrow> real \<Rightarrow> real \<Rightarrow> real" where
  "gaussian_log_likelihood v mu sigma =
     ln (exp (- ((v - mu)\<^sup>2) / (2 * sigma\<^sup>2)) / (sigma * sqrt (2 * pi)))"

section \<open>Validation of the Fourier parameters\<close>

text \<open>
  \<open>check_fourier_parameters\<close> (lines 11-15).  The methods call it as
  \<open>self.check_fourier_parameters\<close>; the base class that would supply the attribute is
  not among the source files, so the call is read as a call of this function.
\<close>

definition check_fourier_parameters :: "pyobj \<Rightarrow> error + unit" where
  "check_fourier_parameters theta =
     (if \<not> isinstance_ndarray theta then Inl TypeError
      else if length (elements theta) < 4 then Inl ValueError
      else Inr ())"

section \<open>Computations that may raise and that call feature extractors\<close>

text \<open>
  Each call of a feature extractor is recorded as an event, so that a statement such as
  "no feature extraction is performed" is a statement about the recorded events.
\<close>

datatype event =
    InterceptFunction "real list" "real list"
  | CalculateTightness "real list"
  | CalculateAsymmetry "real list"

type_synonym 'a run = "(error + 'a) \<times> event list"

definition ret :: "'a \<Rightarrow> 'a run" where
  "ret v = (Inr v, [])"

definition lift :: "error + 'a \<Rightarrow> 'a run" where
  "lift r = (r, [])"

definition feature :: "event \<Rightarrow> 'a \<Rightarrow> 'a run" where
  "feature ev v = (Inr v, [ev])"

definition and_then :: "'a run \<Rightarrow> ('a \<Rightarrow> 'b run) \<Rightarrow> 'b run" where
  "and_then m f =
     (case m of
        (Inl e, evs) \<Rightarrow> (Inl e, evs)
      | (Inr v, evs) \<Rightarrow> (case f v of (r, evs') \<Rightarrow> (r, evs @ evs')))"

section \<open>The aggregator \<open>GeologicalKnowledge\<close>\<close>

text \<open>
  The six bound methods that \<open>setup_constraint_functions\<close> stores in the function map.
\<close>

datatype bound_method =
    Asymmetry_objective_function
  | Tightness_objective_function
  | Wavelength_objective_function
  | Axis_wavelength_objective_function
  | Axial_trace_objective_function
  | Hinge_angle_objective_function

text \<open>
  The instance.  \<open>x_coords\<close> is the attribute \<open>x\<close>.  \<open>calculate_tightness\<close> and
  \<open>calculate_asymmetry\<close> are methods inherited from \<open>SPlotProcessor\<close>, and
  \<open>intercept_function\<close> holds \<open>fourier_series_x_intercepts\<close>; the three are external
  collaborators and stay parameters.  \<open>constraint_function_map\<close> is \<open>None\<close> until
  \<open>setup_constraint_functions\<close> has run.
\<close>

record GeologicalKnowledge =
  x_coords :: "real list"
  constraints :: "(string \<times> pyval) list"
  constraint_names :: "string list"
  constraint_function_map :: "(string \<times> bound_method) list option"
  intercept_function :: "real list \<Rightarrow> real list \<Rightarrow> real list"
  calculate_tightness :: "real list \<Rightarrow> real"
  calculate_asymmetry :: "real list \<Rightarrow> real"

definition GeologicalKnowledge_init ::
  "(real list \<Rightarrow> real list \<Rightarrow> real list) \<Rightarrow> (real list \<Rightarrow> real) \<Rightarrow> (real list \<Rightarrow> real) \<Rightarrow>
   real list \<Rightarrow> (string \<times> pyval) list \<Rightarrow> GeologicalKnowledge" where
  "GeologicalKnowledge_init fourier_series_x_intercepts tightness asymmetry xs cs =
     \<lparr> x_coords = xs,
       constraints = cs,
       constraint_names = [''asymmetry'', ''tightness'', ''fold_wavelength'', ''axial_traces'',
                           ''hinge_angle'', ''axis_wavelength''],
       constraint_function_map = None,
       intercept_function = fourier_series_x_intercepts,
       calculate_tightness = tightness,
       calculate_asymmetry = asymmetry \<rparr>"

text \<open>\<open>self.constraints[name][field]\<close>.\<close>

definition constraint_field :: "GeologicalKnowledge \<Rightarrow> string \<Rightarrow> string \<Rightarrow> error + real" where
  "constraint_field self name field =
     (case getitem (constraints self) name of
        Inl e \<Rightarrow> Inl e
      | Inr entry \<Rightarrow> subscript entry field)"

subsection \<open>The axial-trace term\<close>

text \<open>
  The body of the loop at lines 97-106, over the items whose key contains
  \<open>axial_trace\<close>: \<open>dist = mu - intercepts\<close> is the signed difference, and the intercept
  scored is the one at \<open>np.argmin(dist)\<close>.
\<close>

fun axial_trace_loop :: "real list \<Rightarrow> (string \<times> pyval) list \<Rightarrow> real \<Rightarrow> error + real" where
  "axial_trace_loop intercepts [] likelihood = Inr likelihood"
| "axial_trace_loop intercepts ((key, trace) # items) likelihood =
     (case subscript trace ''mu'' of Inl e \<Rightarrow> Inl e | Inr mu \<Rightarrow>
      case subscript trace ''sigma'' of Inl e \<Rightarrow> Inl e | Inr sigma \<Rightarrow>
      case subscript trace ''w'' of Inl e \<Rightarrow> Inl e | Inr w \<Rightarrow>
      let dist = map (\<lambda>i. mu - i) intercepts in
      case argmin dist of Inl e \<Rightarrow> Inl e | Inr j \<Rightarrow>
        axial_trace_loop intercepts items
          (likelihood + (- gaussian_log_likelihood (intercepts ! j) mu sigma) * w))"

definition axial_trace_objective_function :: "GeologicalKnowledge \<Rightarrow> pyobj \<Rightarrow> real run" where
  "axial_trace_objective_function self theta =
     and_then (lift (check_fourier_parameters theta)) (\<lambda>_.
     and_then (feature (InterceptFunction (x_coords self) (elements theta))
                 (intercept_function self (x_coords self) (elements theta))) (\<lambda>intercepts.
     if length intercepts = 0 then ret 999
     else lift (axial_trace_loop intercepts
                  (filter (\<lambda>item. contains ''axial_trace'' (fst item)) (constraints self)) 0)))"

subsection \<open>The five single-record terms\<close>

text \<open>\<open>theta[3]\<close> is read only after the check has established four elements.\<close>

definition wavelength_objective_function :: "GeologicalKnowledge \<Rightarrow> pyobj \<Rightarrow> real run" where
  "wavelength_objective_function self theta =
     and_then (lift (check_fourier_parameters theta)) (\<lambda>_.
     and_then (lift (constraint_field self ''fold_wavelength'' ''mu'')) (\<lambda>mu.
     and_then (lift (constraint_field self ''fold_wavelength'' ''sigma'')) (\<lambda>sigma.
     let likelihood = - gaussian_log_likelihood (elements theta ! 3) mu sigma in
     and_then (lift (constraint_field self ''fold_wavelength'' ''w'')) (\<lambda>w.
     ret (likelihood * w)))))"

definition axis_wavelength_objective_function :: "GeologicalKnowledge \<Rightarrow> pyobj \<Rightarrow> real run" where
  "axis_wavelength_objective_function self theta =
     and_then (lift (check_fourier_parameters theta)) (\<lambda>_.
     and_then (lift (constraint_field self ''axis_wavelength'' ''mu'')) (\<lambda>mu.
     and_then (lift (constraint_field self ''axis_wavelength'' ''sigma'')) (\<lambda>sigma.
     let likelihood = - gaussian_log_likelihood (elements theta ! 3) mu sigma in
     and_then (lift (constraint_field self ''axis_wavelength'' ''w'')) (\<lambda>w.
     ret (likelihood * w)))))"

definition tightness_objective_function :: "GeologicalKnowledge \<Rightarrow> pyobj \<Rightarrow> real run" where
  "tightness_objective_function self theta =
     and_then (lift (check_fourier_parameters theta)) (\<lambda>_.
     and_then (lift (constraint_field self ''tightness'' ''mu'')) (\<lambda>mu.
     and_then (lift (constraint_field self ''tightness'' ''sigma'')) (\<lambda>sigma.
     and_then (lift (constraint_field self ''tightness'' ''w'')) (\<lambda>w.
     and_then (feature (CalculateTightness (elements theta))
                 (calculate_tightness self (elements theta))) (\<lambda>tightness.
     let likelihood = - gaussian_log_likelihood tightness mu sigma in
     ret (likelihood * w))))))"

definition hinge_angle_objective_function :: "GeologicalKnowledge \<Rightarrow> pyobj \<Rightarrow> real run" where
  "hinge_angle_objective_function self theta =
     and_then (lift (check_fourier_parameters theta)) (\<lambda>_.
     and_then (lift (constraint_field self ''hinge_angle'' ''mu'')) (\<lambda>mu.
     and_then (lift (constraint_field self ''hinge_angle'' ''sigma'')) (\<lambda>sigma.
     and_then (lift (constraint_field self ''hinge_angle'' ''w'')) (\<lambda>w.
     and_then (feature (CalculateTightness (elements theta))
                 (calculate_tightness self (elements theta))) (\<lambda>hinge_angle.
     let likelihood = - gaussian_log_likelihood hinge_angle mu sigma in
     ret (likelihood * w))))))"

definition asymmetry_objective_function :: "GeologicalKnowledge \<Rightarrow> pyobj \<Rightarrow> real run" where
  "asymmetry_objective_function self theta =
     and_then (lift (check_fourier_parameters theta)) (\<lambda>_.
     and_then (lift (constraint_field self ''asymmetry'' ''mu'')) (\<lambda>mu.
     and_then (lift (constraint_field self ''asymmetry'' ''sigma'')) (\<lambda>sigma.
     and_then (lift (constraint_field self ''asymmetry'' ''w'')) (\<lambda>w.
     and_then (feature (CalculateAsymmetry (elements theta))
                 (calculate_asymmetry self (elements theta))) (\<lambda>asymmetry.
     let likelihood = - gaussian_log_likelihood asymmetry mu sigma in
     ret (likelihood * w))))))"

subsection \<open>The function map and the total objective\<close>

definition setup_constraint_functions :: "GeologicalKnowledge \<Rightarrow> GeologicalKnowledge" where
  "setup_constraint_functions self =
     self\<lparr> constraint_function_map := Some
       [(''asymmetry'', Asymmetry_objective_function),
        (''tightness'', Tightness_objective_function),
        (''fold_wavelength'', Wavelength_objective_function),
        (''axis_wavelength'', Axis_wavelength_objective_function),
        (''axial_traces'', Axial_trace_objective_function),
        (''hinge_angle'', Hinge_angle_objective_function)] \<rparr>"

text \<open>Calling a bound method taken from the map.\<close>

fun invoke :: "bound_method \<Rightarrow> GeologicalKnowledge \<Rightarrow> pyobj \<Rightarrow> real run" where
  "invoke Asymmetry_objective_function self theta = asymmetry_objective_function self theta"
| "invoke Tightness_objective_function self theta = tightness_objective_function self theta"
| "invoke Wavelength_objective_function self theta = wavelength_objective_function self theta"
| "invoke Axis_wavelength_objective_function self theta =
     axis_wavelength_objective_function self theta"
| "invoke Axial_trace_objective_function self theta = axial_trace_objective_function self theta"
| "invoke Hinge_angle_objective_function self theta = hinge_angle_objective_function self theta"

text \<open>\<open>self.constraint_function_map[key]\<close>: subscripting \<open>None\<close> is a \<open>TypeError\<close>.\<close>

definition function_map_getitem :: "GeologicalKnowledge \<Rightarrow> string \<Rightarrow> error + bound_method" where
  "function_map_getitem self key =
     (case constraint_function_map self of
        None \<Rightarrow> Inl TypeError
      | Some m \<Rightarrow> getitem m key)"

text \<open>\<open>key in self.constraints\<close>.\<close>

definition has_key :: "('k \<times> 'v) list \<Rightarrow> 'k \<Rightarrow> bool" where
  "has_key d k = (map_of d k \<noteq> None)"

text \<open>The loop of \<open>__call__\<close> (lines 396-403) with its running total.\<close>

fun call_loop :: "GeologicalKnowledge \<Rightarrow> pyobj \<Rightarrow> string list \<Rightarrow> real \<Rightarrow> real run" where
  "call_loop self theta [] total_objective_value = ret total_objective_value"
| "call_loop self theta (key # keys) total_objective_value =
     (if has_key (constraints self) key
      then and_then (lift (function_map_getitem self key)) (\<lambda>f.
           and_then (invoke f self theta) (\<lambda>v.
           call_loop self theta keys (total_objective_value + v)))
      else call_loop self theta keys total_objective_value)"

text \<open>
  \<open>__call__\<close>: the result with its events, and the instance as the call leaves it.
\<close>

definition call :: "GeologicalKnowledge \<Rightarrow> pyobj \<Rightarrow> real run \<times> GeologicalKnowledge" where
  "call self theta =
     (case check_fourier_parameters theta of
        Inl e \<Rightarrow> (lift (Inl e), self)
      | Inr _ \<Rightarrow>
          (let self' = setup_constraint_functions self
           in (call_loop self' theta (constraint_names self') 0, self')))"

subsection \<open>Restricted-mode constraints\<close>

datatype hessian_update = BFGS

record NonlinearConstraint =
  nlc_fun :: bound_method
  nlc_lb :: real
  nlc_ub :: real
  nlc_jac :: string
  nlc_hess :: hessian_update

text \<open>The loop of \<open>prepare_and_setup_constraints\<close> (lines 437-455).\<close>

fun prepare_loop ::
  "GeologicalKnowledge \<Rightarrow> (string \<times> pyval) list \<Rightarrow> NonlinearConstraint list \<Rightarrow>
   error + NonlinearConstraint list" where
  "prepare_loop self [] acc = Inr acc"
| "prepare_loop self ((constraint_name, constraint_info) # items) acc =
     (if \<not> isinstance_dict constraint_info then Inl TypeError
      else
        case subscript constraint_info ''lb'' of Inl e \<Rightarrow> Inl e | Inr lb \<Rightarrow>
        case subscript constraint_info ''ub'' of Inl e \<Rightarrow> Inl e | Inr ub \<Rightarrow>
        case subscript constraint_info ''mu'' of Inl e \<Rightarrow> Inl e | Inr mu \<Rightarrow>
        case subscript constraint_info ''sigma'' of Inl e \<Rightarrow> Inl e | Inr sigma \<Rightarrow>
        let val = map (\<lambda>v. - gaussian_log_likelihood v mu sigma) (linspace lb ub 100) in
        case function_map_getitem self constraint_name of Inl e \<Rightarrow> Inl e | Inr f \<Rightarrow>
          prepare_loop self items
            (acc @ [\<lparr> nlc_fun = f, nlc_lb = Min (set val), nlc_ub = Max (set val),
                      nlc_jac = ''2-point'', nlc_hess = BFGS \<rparr>]))"

definition prepare_and_setup_constraints ::
  "GeologicalKnowledge \<Rightarrow> (error + NonlinearConstraint list) \<times> GeologicalKnowledge" where
  "prepare_and_setup_constraints self =
     (let self' = setup_constraint_functions self
      in (prepare_loop self' (constraints self') [], self'))"

section \<open>The solver facade\<close>

text \<open>
  The members of \<open>SolverType\<close> that \<open>Solver.__getitem__\<close> names; the enumeration itself
  is declared in a module that is not among the source files.
\<close>

datatype SolverType =
    DIFFERENTIAL_EVOLUTION
  | CONSTRAINED_TRUST_REGION
  | UNCONSTRAINED_TRUST_REGION
  | PARTICLE_SWARM

datatype solver_function = Differential_evolution | Constrained_trust_region

definition solver_map :: "(SolverType \<times> solver_function option) list" where
  "solver_map =
     [(DIFFERENTIAL_EVOLUTION, Some Differential_evolution),
      (CONSTRAINED_TRUST_REGION, Some Constrained_trust_region),
      (UNCONSTRAINED_TRUST_REGION, None),
      (PARTICLE_SWARM, None)]"

definition Solver_getitem :: "SolverType \<Rightarrow> error + solver_function option" where
  "Solver_getitem solver_type = getitem solver_map solver_type"

text \<open>
  Calling what the lookup returned: calling \<open>None\<close> is a \<open>TypeError\<close>; otherwise the
  operation runs.
\<close>

definition call_operation ::
  "solver_function option \<Rightarrow> (solver_function \<Rightarrow> error + 'r) \<Rightarrow> error + 'r" where
  "call_operation operation run =
     (case operation of None \<Rightarrow> Inl TypeError | Some f \<Rightarrow> run f)"

text \<open>
  \<open>Solver.differential_evolution\<close> (lines 29-85).  Its body is one call of scipy's
  \<open>differential_evolution\<close>, whose argument list reads the name \<open>callback\<close>.  The names
  bound in the function's own scope are its parameters (the parameter \<open>callback\<close> is
  commented out at line 38); the names bound at module level are the imports and the
  class.  No Python builtin is called \<open>callback\<close>.  Reading an unbound name raises
  \<open>NameError\<close> before the call is made.
\<close>

definition differential_evolution_parameters :: "string list" where
  "differential_evolution_parameters =
     [''objective_function'', ''bounds'', ''init'', ''maxiter'', ''seed'', ''polish'',
      ''strategy'', ''mutation'', ''kwargs'']"

definition solvers_module_names :: "string list" where
  "solvers_module_names =
     [''Callable'', ''Dict'', ''Any'', ''Tuple'', ''Union'', ''List'', ''numpy'', ''minimize'',
      ''differential_evolution'', ''SolverType'', ''beartype'', ''Solver'']"

definition name_bound :: "string \<Rightarrow> bool" where
  "name_bound name =
     (name \<in> set differential_evolution_parameters \<or> name \<in> set solvers_module_names)"

record 'f differential_evolution_args =
  objective_function :: 'f
  bounds :: "(real \<times> real) list"
  init :: string
  maxiter :: int
  seed :: int
  polish :: bool
  strategy :: string
  mutation :: "real \<times> real"

text \<open>
  The result record of scipy's optimizers: best vector, best value, convergence flag,
  iteration and evaluation counts.
\<close>

record OptimizeResult =
  opt_x :: "real list"
  opt_fun :: real
  opt_success :: bool
  opt_nit :: nat
  opt_nfev :: nat

text \<open>
  \<open>scipy_de\<close> stands for scipy's \<open>differential_evolution\<close>, an external collaborator.
\<close>

definition differential_evolution ::
  "('f differential_evolution_args \<Rightarrow> error + OptimizeResult) \<Rightarrow>
   'f differential_evolution_args \<Rightarrow> error + OptimizeResult" where
  "differential_evolution scipy_de args =
     (if \<not> name_bound ''callback'' then Inl NameError
      else scipy_de args)"

section \<open>Vocabulary of the properties\<close>

text \<open>The dictionary that \<open>setup_constraint_functions\<close> builds, as a value.\<close>

definition fixed_function_map :: "(string \<times> bound_method) list" where
  "fixed_function_map =
     [(''asymmetry'', Asymmetry_objective_function),
      (''tightness'', Tightness_objective_function),
      (''fold_wavelength'', Wavelength_objective_function),
      (''axis_wavelength'', Axis_wavelength_objective_function),
      (''axial_traces'', Axial_trace_objective_function),
      (''hinge_angle'', Hinge_angle_objective_function)]"

text \<open>
  An entry that the restricted-mode loop gets through: a dictionary holding \<open>lb\<close>,
  \<open>ub\<close>, \<open>mu\<close> and \<open>sigma\<close>, stored under a key of the function map.
\<close>

definition carries :: "pyval \<Rightarrow> string \<Rightarrow> bool" where
  "carries info field = (\<not> isl (subscript info field))"

definition field_value :: "pyval \<Rightarrow> string \<Rightarrow> real" where
  "field_value info field = (case subscript info field of Inr v \<Rightarrow> v | Inl e \<Rightarrow> 0)"

definition bounded_record :: "string \<times> pyval \<Rightarrow> bool" where
  "bounded_record item =
     (has_key fixed_function_map (fst item) \<and> isinstance_dict (snd item) \<and>
      carries (snd item) ''lb'' \<and> carries (snd item) ''ub'' \<and>
      carries (snd item) ''mu'' \<and> carries (snd item) ''sigma'')"

text \<open>
  The negative log-likelihood at the 100 evenly spaced points between an entry's \<open>lb\<close>
  and \<open>ub\<close>, and the descriptor whose bounds are its least and greatest value.
\<close>

definition likelihood_range :: "pyval \<Rightarrow> real list" where
  "likelihood_range info =
     map (\<lambda>v. - gaussian_log_likelihood v (field_value info ''mu'') (field_value info ''sigma''))
       (linspace (field_value info ''lb'') (field_value info ''ub'') 100)"

definition descriptor :: "string \<times> pyval \<Rightarrow> NonlinearConstraint" where
  "descriptor item =
     \<lparr> nlc_fun = the (map_of fixed_function_map (fst item)),
       nlc_lb = Min (set (likelihood_range (snd item))),
       nlc_ub = Max (set (likelihood_range (snd item))),
       nlc_jac = ''2-point'', nlc_hess = BFGS \<rparr>"

text \<open>
  The contribution of one axial-trace entry: the loop run on that entry alone.
\<close>

definition trace_term :: "real list \<Rightarrow> string \<times> pyval \<Rightarrow> error + real" where
  "trace_term intercepts item = axial_trace_loop intercepts [item] 0"

section \<open>Basic facts\<close>

lemmas run_defs = and_then_def lift_def ret_def feature_def

lemma invoke_check_fails:
  "check_fourier_parameters theta = Inl e \<Longrightarrow> invoke m self theta = (Inl e, [])"
  by (cases m) (simp_all add: run_defs asymmetry_objective_function_def
      tightness_objective_function_def wavelength_objective_function_def
      axis_wavelength_objective_function_def axial_trace_objective_function_def
      hinge_angle_objective_function_def)

lemma gaussian_log_likelihood_unit_sigma:
  "gaussian_log_likelihood v mu 1 = - ((v - mu)\<^sup>2) / 2 - ln (sqrt (2 * pi))"
  by (simp add: gaussian_log_likelihood_def ln_div)

lemma setup_constraint_functions_fields:
  "constraint_function_map (setup_constraint_functions self) = Some fixed_function_map"
  "constraints (setup_constraint_functions self) = constraints self"
  "x_coords (setup_constraint_functions self) = x_coords self"
  "constraint_names (setup_constraint_functions self) = constraint_names self"
  "intercept_function (setup_constraint_functions self) = intercept_function self"
  "calculate_tightness (setup_constraint_functions self) = calculate_tightness self"
  "calculate_asymmetry (setup_constraint_functions self) = calculate_asymmetry self"
  by (simp_all add: setup_constraint_functions_def fixed_function_map_def)

lemma carries_field_value:
  "carries info field \<Longrightarrow> subscript info field = Inr (field_value info field)"
  by (cases "subscript info field") (simp_all add: carries_def field_value_def)

lemma bounded_record_step:
  assumes "constraint_function_map self = Some fixed_function_map"
    and "bounded_record (name, info)"
  shows "prepare_loop self ((name, info) # items) acc =
           prepare_loop self items (acc @ [descriptor (name, info)])"
proof -
  from assms(2) obtain f where f: "map_of fixed_function_map name = Some f"
    by (auto simp: bounded_record_def has_key_def)
  with assms(1) have g: "function_map_getitem self name = Inr f"
    by (simp add: function_map_getitem_def getitem_def)
  from assms(2) have d: "isinstance_dict info"
    and c: "subscript info ''lb'' = Inr (field_value info ''lb'')"
      "subscript info ''ub'' = Inr (field_value info ''ub'')"
      "subscript info ''mu'' = Inr (field_value info ''mu'')"
      "subscript info ''sigma'' = Inr (field_value info ''sigma'')"
    by (simp_all add: bounded_record_def carries_field_value)
  show ?thesis
    using d g f by (simp add: c descriptor_def likelihood_range_def)
qed

lemma prepare_loop_bounded_prefix:
  assumes "constraint_function_map self = Some fixed_function_map"
    and "\<forall>item \<in> set pre. bounded_record item"
  shows "prepare_loop self (pre @ rest) acc = prepare_loop self rest (acc @ map descriptor pre)"
  using assms(2)
proof (induction pre arbitrary: acc)
  case Nil
  then show ?case by simp
next
  case (Cons item pre)
  obtain name info where item: "item = (name, info)" by (cases item)
  from Cons.prems have "bounded_record (name, info)" by (simp add: item)
  from bounded_record_step [OF assms(1) this]
  have "prepare_loop self ((item # pre) @ rest) acc =
          prepare_loop self (pre @ rest) (acc @ [descriptor item])"
    by (simp add: item)
  also have "\<dots> = prepare_loop self rest ((acc @ [descriptor item]) @ map descriptor pre)"
    using Cons.prems by (intro Cons.IH) simp
  finally show ?case by simp
qed

lemma likelihood_range_nonempty: "likelihood_range info \<noteq> []"
  by (simp add: likelihood_range_def linspace_def)

lemma descriptor_bounds_ordered: "nlc_lb (descriptor item) \<le> nlc_ub (descriptor item)"
proof -
  obtain v vs where "likelihood_range (snd item) = v # vs"
    using likelihood_range_nonempty [of "snd item"] by (cases "likelihood_range (snd item)") auto
  then have v: "v \<in> set (likelihood_range (snd item))" by simp
  have "Min (set (likelihood_range (snd item))) \<le> v" using v by simp
  moreover have "v \<le> Max (set (likelihood_range (snd item)))" using v by simp
  ultimately show ?thesis by (simp add: descriptor_def)
qed

lemma dict_subscript_error:
  "isinstance_dict info \<Longrightarrow> subscript info f = Inl e \<Longrightarrow> e = KeyError"
  by (cases info) (simp_all add: getitem_def split: option.splits)

lemma not_bounded_record_raises:
  assumes "constraint_function_map self = Some fixed_function_map"
    and "\<not> bounded_record (name, info)"
  shows "prepare_loop self ((name, info) # items) acc =
           Inl (if isinstance_dict info then KeyError else TypeError)"
proof (cases "isinstance_dict info")
  case False
  then show ?thesis by simp
next
  case True
  show ?thesis
  proof (cases "carries info ''lb'' \<and> carries info ''ub'' \<and> carries info ''mu'' \<and>
      carries info ''sigma''")
    case c: True
    then have k: "map_of fixed_function_map name = None"
      using assms(2) True by (simp add: bounded_record_def has_key_def)
    then have g: "function_map_getitem self name = Inl KeyError"
      using assms(1) by (simp add: function_map_getitem_def getitem_def)
    from c have s: "subscript info ''lb'' = Inr (field_value info ''lb'')"
      "subscript info ''ub'' = Inr (field_value info ''ub'')"
      "subscript info ''mu'' = Inr (field_value info ''mu'')"
      "subscript info ''sigma'' = Inr (field_value info ''sigma'')"
      by (simp_all add: carries_field_value)
    show ?thesis using True g by (simp add: s)
  next
    case False
    have miss: "subscript info f = Inl KeyError" if "\<not> carries info f" for f
      using that dict_subscript_error [OF True, of f]
      by (cases "subscript info f") (simp_all add: carries_def)
    show ?thesis using True False
      by (auto simp: miss carries_field_value split: sum.splits
          dest: dict_subscript_error [OF True])
  qed
qed

lemma fst_and_then: "fst m = Inr v \<Longrightarrow> fst (and_then m f) = fst (f v)"
  by (cases m) (simp add: and_then_def split: prod.splits)

lemma fst_and_then_lift: "fst (and_then (lift r) f) = (case r of Inl e \<Rightarrow> Inl e | Inr v \<Rightarrow> fst (f v))"
  by (cases r) (simp_all add: and_then_def lift_def split: prod.splits)

lemma invoke_setup_constraint_functions:
  "invoke m (setup_constraint_functions self) theta = invoke m self theta"
  by (cases m) (simp_all add: asymmetry_objective_function_def
      tightness_objective_function_def wavelength_objective_function_def
      axis_wavelength_objective_function_def axial_trace_objective_function_def
      hinge_angle_objective_function_def constraint_field_def setup_constraint_functions_fields
      cong: if_cong)

lemma setup_constraint_functions_idem:
  "setup_constraint_functions (setup_constraint_functions self) = setup_constraint_functions self"
  by (simp add: setup_constraint_functions_def)

lemma call_loop_setup_step:
  assumes "constraint_function_map self = Some fixed_function_map"
    and "has_key (constraints self) key \<longrightarrow>
           map_of fixed_function_map key = Some m \<and> fst (invoke m self theta) = Inr v"
  shows "fst (call_loop self theta (key # keys) acc) =
         fst (call_loop self theta keys (acc + (if has_key (constraints self) key then v else 0)))"
proof (cases "has_key (constraints self) key")
  case False
  then show ?thesis by simp
next
  case True
  with assms have g: "function_map_getitem self key = Inr m"
    and i: "fst (invoke m self theta) = Inr v"
    by (simp_all add: function_map_getitem_def getitem_def)
  show ?thesis using True
    by (simp add: g fst_and_then_lift fst_and_then [OF i])
qed

lemma axial_trace_loop_step:
  "axial_trace_loop intercepts (item # items) acc =
     (case trace_term intercepts item of
        Inl e \<Rightarrow> Inl e
      | Inr t \<Rightarrow> axial_trace_loop intercepts items (acc + t))"
  by (cases item) (simp add: trace_term_def Let_def split: sum.splits)

lemma axial_trace_loop_success:
  "axial_trace_loop intercepts items acc = Inr v \<longleftrightarrow>
     (\<forall>item \<in> set items. \<not> isl (trace_term intercepts item)) \<and>
     v = acc + sum_list (map (\<lambda>item. projr (trace_term intercepts item)) items)"
proof (induction items arbitrary: acc)
  case Nil
  then show ?case by auto
next
  case (Cons item items)
  show ?case
  proof (cases "trace_term intercepts item")
    case (Inl e)
    then show ?thesis by (simp add: axial_trace_loop_step)
  next
    case (Inr t)
    then show ?thesis by (simp add: axial_trace_loop_step Cons.IH add.assoc)
  qed
qed

lemma axial_trace_loop_permuted:
  assumes "mset items' = mset items"
    and "axial_trace_loop intercepts items acc = Inr v"
  shows "axial_trace_loop intercepts items' acc = Inr v"
proof -
  let ?t = "\<lambda>item. projr (trace_term intercepts item)"
  have s: "set items' = set items" using assms(1) by (rule mset_eq_setD)
  have "sum_list (map ?t items') = sum_mset (image_mset ?t (mset items'))"
    by (simp flip: sum_mset_sum_list)
  also have "\<dots> = sum_list (map ?t items)"
    by (simp add: assms(1) flip: sum_mset_sum_list)
  finally show ?thesis
    using assms(2) s by (simp add: axial_trace_loop_success)
qed

lemma map_of_permuted:
  assumes "mset cs' = mset cs" and "distinct (map fst cs)"
  shows "map_of cs' = map_of cs"
proof -
  have "mset (map fst cs') = mset (map fst cs)" using assms(1) by simp
  then have "distinct (map fst cs')" using assms(2) by (metis mset_eq_imp_distinct_iff)
  moreover have "set cs' = set cs" using assms(1) by (rule mset_eq_setD)
  ultimately show ?thesis using assms(2) by (intro map_of_inject_set [THEN iffD2]) simp_all
qed

lemma invoke_permuted:
  assumes "mset cs' = mset (constraints self)" and "distinct (map fst (constraints self))"
    and "fst (invoke m self theta) = Inr v"
  shows "fst (invoke m (self\<lparr>constraints := cs'\<rparr>) theta) = Inr v"
proof -
  have mo: "map_of cs' = map_of (constraints self)"
    using assms(1,2) by (rule map_of_permuted)
  have cf: "constraint_field (self\<lparr>constraints := cs'\<rparr>) name field =
      constraint_field self name field" for name field
    by (simp add: constraint_field_def getitem_def mo)
  show ?thesis
  proof (cases "m = Axial_trace_objective_function")
    case False
    then have "invoke m (self\<lparr>constraints := cs'\<rparr>) theta = invoke m self theta"
      by (cases m) (simp_all add: asymmetry_objective_function_def
          tightness_objective_function_def wavelength_objective_function_def
          axis_wavelength_objective_function_def hinge_angle_objective_function_def cf)
    with assms(3) show ?thesis by simp
  next
    case True
    let ?P = "\<lambda>item::string \<times> pyval. contains ''axial_trace'' (fst item)"
    have f: "mset (filter ?P cs') = mset (filter ?P (constraints self))"
      using assms(1) by simp
    show ?thesis
    proof (cases "check_fourier_parameters theta")
      case (Inl e)
      then show ?thesis using assms(3) True
        by (simp add: axial_trace_objective_function_def run_defs)
    next
      case (Inr u)
      show ?thesis
      proof (cases "intercept_function self (x_coords self) (elements theta) = []")
        case e: True
        then show ?thesis using assms(3) True Inr
          by (simp add: axial_trace_objective_function_def run_defs)
      next
        case ne: False
        with assms(3) True Inr have
          "axial_trace_loop (intercept_function self (x_coords self) (elements theta))
             (filter ?P (constraints self)) 0 = Inr v"
          by (simp add: axial_trace_objective_function_def run_defs)
        from axial_trace_loop_permuted [OF f this] show ?thesis using True Inr ne
          by (simp add: axial_trace_objective_function_def run_defs)
      qed
    qed
  qed
qed

lemma fst_and_then_Inr:
  assumes "fst (and_then m f) = Inr v"
  obtains w where "fst m = Inr w" and "fst (f w) = Inr v"
  using assms by (cases m) (auto simp: and_then_def split: sum.splits prod.splits)

lemma call_loop_permuted:
  assumes "mset cs' = mset (constraints self)" and "distinct (map fst (constraints self))"
    and "fst (call_loop self theta keys acc) = Inr v"
  shows "fst (call_loop (self\<lparr>constraints := cs'\<rparr>) theta keys acc) = Inr v"
  using assms(3)
proof (induction keys arbitrary: acc)
  case Nil
  then show ?case by (simp add: ret_def)
next
  case (Cons key keys)
  let ?self' = "self\<lparr>constraints := cs'\<rparr>"
  have mo: "map_of cs' = map_of (constraints self)"
    using assms(1,2) by (rule map_of_permuted)
  have hk: "has_key (constraints ?self') key = has_key (constraints self) key"
    by (simp add: has_key_def mo)
  have fm: "function_map_getitem ?self' key = function_map_getitem self key"
    by (simp add: function_map_getitem_def)
  show ?case
  proof (cases "has_key (constraints self) key")
    case False
    with Cons hk show ?thesis by simp
  next
    case True
    with Cons.prems have
      "fst (and_then (lift (function_map_getitem self key)) (\<lambda>f.
            and_then (invoke f self theta) (\<lambda>w. call_loop self theta keys (acc + w)))) = Inr v"
      by simp
    then obtain m where m: "function_map_getitem self key = Inr m"
      and r: "fst (and_then (invoke m self theta)
                (\<lambda>w. call_loop self theta keys (acc + w))) = Inr v"
      by (rule fst_and_then_Inr) (simp add: lift_def)
    from r obtain w where w: "fst (invoke m self theta) = Inr w"
      and k: "fst (call_loop self theta keys (acc + w)) = Inr v"
      by (rule fst_and_then_Inr)
    have w': "fst (invoke m ?self' theta) = Inr w"
      using assms(1,2) w by (rule invoke_permuted)
    have "fst (call_loop ?self' theta keys (acc + w)) = Inr v"
      using k by (rule Cons.IH)
    then show ?thesis using True hk
      by (simp add: fm m fst_and_then_lift fst_and_then [OF w'])
  qed
qed

text \<open>
  What \<open>np.argmin\<close> of the signed difference \<open>mu - intercepts\<close> selects: the
  greatest intercept, whatever \<open>mu\<close> is.
\<close>

lemma argmin_scan_least:
  assumes "length pre = i" and "bi < i" and "pre ! bi = best" and "\<forall>v \<in> set pre. best \<le> v"
  shows "argmin_scan vs i best bi < length (pre @ vs) \<and>
         (\<forall>v \<in> set (pre @ vs). (pre @ vs) ! argmin_scan vs i best bi \<le> v)"
  using assms
proof (induction vs arbitrary: pre i best bi)
  case Nil
  then show ?case by simp
next
  case (Cons v vs)
  show ?case
  proof (cases "v < best")
    case True
    have "argmin_scan vs (Suc i) v i < length ((pre @ [v]) @ vs) \<and>
         (\<forall>u \<in> set ((pre @ [v]) @ vs). ((pre @ [v]) @ vs) ! argmin_scan vs (Suc i) v i \<le> u)"
      using Cons.prems True by (intro Cons.IH) (auto simp: nth_append)
    with True show ?thesis by simp
  next
    case False
    have "argmin_scan vs (Suc i) best bi < length ((pre @ [v]) @ vs) \<and>
         (\<forall>u \<in> set ((pre @ [v]) @ vs). ((pre @ [v]) @ vs) ! argmin_scan vs (Suc i) best bi \<le> u)"
      using Cons.prems False by (intro Cons.IH) (auto simp: nth_append)
    with False show ?thesis by simp
  qed
qed

lemma argmin_least:
  assumes "argmin a = Inr j"
  shows "j < length a \<and> (\<forall>v \<in> set a. a ! j \<le> v)"
proof (cases a)
  case Nil
  with assms show ?thesis by (simp add: argmin_def)
next
  case (Cons v vs)
  with assms have j: "j = argmin_scan vs 1 v 0" by (simp add: argmin_def)
  from argmin_scan_least [of "[v]" 1 0 v vs] show ?thesis
    by (simp add: j Cons)
qed

lemma signed_difference_selects_greatest:
  assumes "argmin (map (\<lambda>i. mu - i) intercepts) = Inr j"
  shows "j < length intercepts \<and> intercepts ! j = Max (set intercepts)"
proof -
  from argmin_least [OF assms] have l: "j < length intercepts"
    by simp
  from argmin_least [OF assms] have m: "\<forall>v \<in> set intercepts. v \<le> intercepts ! j"
    by auto
  have "Max (set intercepts) = intercepts ! j"
    using l m by (intro Max_eqI) auto
  with l show ?thesis by simp
qed

section \<open>The axial-trace term\<close>

text \<open>
  C1.  The claim is that each axial-trace entry scores the intercept nearest to its
  \<open>mu\<close>.  The code takes \<open>np.argmin\<close> of the signed difference \<open>mu - intercepts\<close>, not
  of its absolute value.  With intercepts \<open>[0, 10]\<close> and one entry
  \<open>{mu: 1, sigma: 1, w: 1}\<close> the differences are \<open>[1, -9]\<close>, so the intercept \<open>10\<close> is
  scored although \<open>0\<close> is nearer to \<open>1\<close>; the value returned is the penalty of \<open>10\<close>,
  which differs from the penalty of \<open>0\<close>.
\<close>

theorem axial_trace_selects_farther_intercept:
  "axial_trace_objective_function
     (GeologicalKnowledge_init (\<lambda>xs th. [0, 10]) (\<lambda>th. 0) (\<lambda>th. 0) [0, 1]
        [(''axial_traces'', PyDict [(''mu'', 1), (''sigma'', 1), (''w'', 1)])])
     (Ndarray [0, 0, 0, 1])
   = (Inr (- gaussian_log_likelihood 10 1 1 * 1), [InterceptFunction [0, 1] [0, 0, 0, 1]])
   \<and> \<bar>1 - 0\<bar> < \<bar>(1::real) - 10\<bar>
   \<and> - gaussian_log_likelihood 10 1 1 * 1 \<noteq> - gaussian_log_likelihood 0 1 1 * 1"
  by (simp add: axial_trace_objective_function_def run_defs check_fourier_parameters_def
      GeologicalKnowledge_init_def getitem_def argmin_def gaussian_log_likelihood_unit_sigma
      power2_eq_square)

text \<open>
  C5.  When \<open>theta\<close> passes validation and the intercept extractor returns no
  intercept, the axial-trace term returns 999, whatever the constraints dictionary
  holds: the only event is the one call of the intercept extractor, and no entry is
  read, so entries that could not be read without an exception do no harm.
\<close>

theorem axial_trace_no_intercepts:
  assumes "check_fourier_parameters theta = Inr ()"
    and "intercept_function self (x_coords self) (elements theta) = []"
  shows "axial_trace_objective_function self theta =
           (Inr 999, [InterceptFunction (x_coords self) (elements theta)])"
  using assms by (simp add: axial_trace_objective_function_def run_defs)

theorem axial_trace_no_intercepts_witness:
  "axial_trace_objective_function
     (GeologicalKnowledge_init (\<lambda>xs th. []) (\<lambda>th. 0) (\<lambda>th. 0) [0, 1]
        [(''axial_traces'', PyFloat 1), (''axial_trace_2'', PyDict [])])
     (Ndarray [1, 2, 3, 4]) = (Inr 999, [InterceptFunction [0, 1] [1, 2, 3, 4]])"
  using axial_trace_no_intercepts [of "Ndarray [1, 2, 3, 4]"
     "GeologicalKnowledge_init (\<lambda>xs th. []) (\<lambda>th. 0) (\<lambda>th. 0) [0, 1]
        [(''axial_traces'', PyFloat 1), (''axial_trace_2'', PyDict [])]"]
  by (simp add: check_fourier_parameters_def GeologicalKnowledge_init_def)

section \<open>Validation errors\<close>

text \<open>
  C6.  A \<open>theta\<close> that is not a numpy array makes each of the six sub-objectives
  (reached through \<open>invoke\<close>) and the total objective raise \<open>TypeError\<close>; a numpy array
  of fewer than four elements makes each raise \<open>ValueError\<close>.  In both cases the list
  of extractor calls is empty, the error is the result of the call, and the total
  objective leaves the instance as it found it.
\<close>

theorem invalid_theta_raises:
  "(\<not> isinstance_ndarray theta \<longrightarrow>
      (\<forall>m. invoke m self theta = (Inl TypeError, [])) \<and>
      call self theta = ((Inl TypeError, []), self))
   \<and> (isinstance_ndarray theta \<and> length (elements theta) < 4 \<longrightarrow>
      (\<forall>m. invoke m self theta = (Inl ValueError, [])) \<and>
      call self theta = ((Inl ValueError, []), self))"
proof -
  have t: "check_fourier_parameters theta = Inl TypeError" if "\<not> isinstance_ndarray theta"
    using that by (simp add: check_fourier_parameters_def)
  have v: "check_fourier_parameters theta = Inl ValueError"
    if "isinstance_ndarray theta" "length (elements theta) < 4"
    using that by (simp add: check_fourier_parameters_def)
  show ?thesis
    using t v by (auto simp: invoke_check_fails call_def lift_def)
qed

theorem invalid_theta_raises_witness:
  "(\<not> isinstance_ndarray (PyList [1, 2, 3, 4, 5]) \<and>
      tightness_objective_function
        (GeologicalKnowledge_init (\<lambda>xs th. []) (\<lambda>th. 45) (\<lambda>th. 0) [0, 1]
           [(''tightness'', PyDict [(''mu'', 45), (''sigma'', 5), (''w'', 1)])])
        (PyList [1, 2, 3, 4, 5]) = (Inl TypeError, []))
   \<and> (isinstance_ndarray (Ndarray [1, 2, 3]) \<and> length (elements (Ndarray [1, 2, 3])) < 4 \<and>
      fst (call
        (GeologicalKnowledge_init (\<lambda>xs th. []) (\<lambda>th. 45) (\<lambda>th. 0) [0, 1]
           [(''tightness'', PyDict [(''mu'', 45), (''sigma'', 5), (''w'', 1)])])
        (Ndarray [1, 2, 3])) = (Inl ValueError, []))"
proof -
  let ?self = "GeologicalKnowledge_init (\<lambda>xs th. []) (\<lambda>th. 45) (\<lambda>th. 0) [0, 1]
           [(''tightness'', PyDict [(''mu'', 45), (''sigma'', 5), (''w'', 1)])]"
  have a: "\<not> isinstance_ndarray (PyList [1, 2, 3, 4, 5])" by simp
  have b: "isinstance_ndarray (Ndarray [1, 2, 3]) \<and> length (elements (Ndarray [1, 2, 3])) < 4"
    by simp
  from a invalid_theta_raises [of "PyList [1, 2, 3, 4, 5]" ?self]
  have "invoke Tightness_objective_function ?self (PyList [1, 2, 3, 4, 5]) = (Inl TypeError, [])"
    by blast
  moreover from b invalid_theta_raises [of "Ndarray [1, 2, 3]" ?self]
  have "call ?self (Ndarray [1, 2, 3]) = ((Inl ValueError, []), ?self)"
    by blast
  ultimately show ?thesis using a b by simp
qed

section \<open>Hinge angle and tightness\<close>

text \<open>
  C8.  The hinge-angle term takes its feature from \<open>calculate_tightness\<close>, exactly as
  the tightness term does.  Hence, when the \<open>hinge_angle\<close> and the \<open>tightness\<close> record
  hold the same \<open>mu\<close>, \<open>sigma\<close> and \<open>w\<close> and \<open>theta\<close> is valid, the two terms return the
  same value, the weighted negative log-likelihood of the tightness.
\<close>

theorem hinge_angle_reuses_tightness:
  assumes "check_fourier_parameters theta = Inr ()"
    and "constraint_field self ''tightness'' ''mu'' = Inr mu"
    and "constraint_field self ''tightness'' ''sigma'' = Inr sigma"
    and "constraint_field self ''tightness'' ''w'' = Inr w"
    and "constraint_field self ''hinge_angle'' ''mu'' = Inr mu"
    and "constraint_field self ''hinge_angle'' ''sigma'' = Inr sigma"
    and "constraint_field self ''hinge_angle'' ''w'' = Inr w"
  shows "hinge_angle_objective_function self theta = tightness_objective_function self theta
         \<and> tightness_objective_function self theta =
             (Inr (- gaussian_log_likelihood (calculate_tightness self (elements theta)) mu sigma * w),
              [CalculateTightness (elements theta)])"
  using assms
  by (simp add: hinge_angle_objective_function_def tightness_objective_function_def run_defs)

theorem hinge_angle_reuses_tightness_witness:
  "hinge_angle_objective_function
     (GeologicalKnowledge_init (\<lambda>xs th. []) (\<lambda>th. 45) (\<lambda>th. 0) [0, 1]
        [(''tightness'', PyDict [(''mu'', 45), (''sigma'', 5), (''w'', 1)]),
         (''hinge_angle'', PyDict [(''w'', 1), (''mu'', 45), (''sigma'', 5)])])
     (Ndarray [1, 2, 3, 4])
   = (Inr (- gaussian_log_likelihood 45 45 5), [CalculateTightness [1, 2, 3, 4]])"
  using hinge_angle_reuses_tightness [of "Ndarray [1, 2, 3, 4]"
     "GeologicalKnowledge_init (\<lambda>xs th. []) (\<lambda>th. 45) (\<lambda>th. 0) [0, 1]
        [(''tightness'', PyDict [(''mu'', 45), (''sigma'', 5), (''w'', 1)]),
         (''hinge_angle'', PyDict [(''w'', 1), (''mu'', 45), (''sigma'', 5)])]" 45 5 1]
  by (simp add: check_fourier_parameters_def GeologicalKnowledge_init_def constraint_field_def
      getitem_def)

section \<open>The solver facade\<close>

text \<open>
  C3.  The claim is that \<open>Solver.differential_evolution\<close> completes and returns a
  result record.  Every call raises \<open>NameError\<close> instead, whatever the objective, the
  bounds, the seed and scipy's own routine: the argument \<open>callback=callback\<close> reads a
  name that nothing binds.
\<close>

theorem differential_evolution_raises:
  "differential_evolution scipy_de args = Inl NameError"
  by (simp add: differential_evolution_def name_bound_def
      differential_evolution_parameters_def solvers_module_names_def)

text \<open>
  C9.  Looking up either reserved strategy returns \<open>None\<close> and raises nothing; the
  failure comes when the caller calls what was returned.  Looking up the two
  implemented strategies returns the two backends, which a call then runs.
\<close>

theorem reserved_strategy_lookup:
  "Solver_getitem UNCONSTRAINED_TRUST_REGION = Inr None
   \<and> Solver_getitem PARTICLE_SWARM = Inr None
   \<and> call_operation None run = Inl TypeError
   \<and> Solver_getitem DIFFERENTIAL_EVOLUTION = Inr (Some Differential_evolution)
   \<and> Solver_getitem CONSTRAINED_TRUST_REGION = Inr (Some Constrained_trust_region)
   \<and> call_operation (Some f) run = run f"
  by (simp add: Solver_getitem_def solver_map_def getitem_def call_operation_def)

section \<open>Restricted-mode constraints\<close>

text \<open>
  C2, as the code has it.  When every entry of the constraints dictionary is a
  dictionary holding \<open>lb\<close>, \<open>ub\<close>, \<open>mu\<close> and \<open>sigma\<close> under one of the six keys of the
  function map, \<open>prepare_and_setup_constraints\<close> returns exactly one descriptor per
  entry, in the dictionary's own key order, whether or not \<open>lb < ub\<close>.  The bounds of
  each descriptor are the least and the greatest value of the negative log-likelihood
  at the 100 evenly spaced points between \<open>lb\<close> and \<open>ub\<close>, so the lower bound never
  exceeds the upper one.
\<close>

theorem prepare_one_descriptor_per_entry:
  assumes "\<forall>item \<in> set (constraints self). bounded_record item"
  shows "fst (prepare_and_setup_constraints self) = Inr (map descriptor (constraints self))
         \<and> length (map descriptor (constraints self)) = length (constraints self)
         \<and> (\<forall>c \<in> set (map descriptor (constraints self)). nlc_lb c \<le> nlc_ub c)"
proof -
  let ?self' = "setup_constraint_functions self"
  have "prepare_loop ?self' (constraints self @ []) [] =
          prepare_loop ?self' [] ([] @ map descriptor (constraints self))"
    using assms
    by (intro prepare_loop_bounded_prefix) (simp_all add: setup_constraint_functions_fields)
  then have "fst (prepare_and_setup_constraints self) = Inr (map descriptor (constraints self))"
    by (simp add: prepare_and_setup_constraints_def Let_def setup_constraint_functions_fields)
  then show ?thesis
    by (simp add: descriptor_bounds_ordered)
qed

theorem prepare_one_descriptor_per_entry_witness:
  "fst (prepare_and_setup_constraints
     (GeologicalKnowledge_init (\<lambda>xs th. []) (\<lambda>th. 0) (\<lambda>th. 0) [0, 1]
        [(''tightness'', PyDict [(''lb'', 30), (''ub'', 60), (''mu'', 45), (''sigma'', 5), (''w'', 1)]),
         (''axial_traces'', PyDict [(''lb'', 2), (''ub'', 1), (''mu'', 0), (''sigma'', 1)])]))
   = Inr [descriptor (''tightness'',
            PyDict [(''lb'', 30), (''ub'', 60), (''mu'', 45), (''sigma'', 5), (''w'', 1)]),
          descriptor (''axial_traces'',
            PyDict [(''lb'', 2), (''ub'', 1), (''mu'', 0), (''sigma'', 1)])]"
  using prepare_one_descriptor_per_entry [of
     "GeologicalKnowledge_init (\<lambda>xs th. []) (\<lambda>th. 0) (\<lambda>th. 0) [0, 1]
        [(''tightness'', PyDict [(''lb'', 30), (''ub'', 60), (''mu'', 45), (''sigma'', 5), (''w'', 1)]),
         (''axial_traces'', PyDict [(''lb'', 2), (''ub'', 1), (''mu'', 0), (''sigma'', 1)])]"]
  by (simp add: GeologicalKnowledge_init_def bounded_record_def has_key_def
      fixed_function_map_def carries_def getitem_def)

text \<open>
  C2 as stated fails: an axial-trace-like key that carries \<open>lb < ub\<close> but is not a key
  of the function map, such as \<open>axial_trace_1\<close>, yields no descriptor; the lookup
  \<open>self.constraint_function_map[constraint_name]\<close> raises \<open>KeyError\<close>.
\<close>

theorem bounded_axial_trace_key_raises:
  "contains ''axial_trace'' ''axial_trace_1'' \<and> (0::real) < 1 \<and>
   fst (prepare_and_setup_constraints
     (GeologicalKnowledge_init (\<lambda>xs th. []) (\<lambda>th. 0) (\<lambda>th. 0) [0, 1]
        [(''axial_trace_1'',
          PyDict [(''lb'', 0), (''ub'', 1), (''mu'', 0), (''sigma'', 1), (''w'', 1)])]))
   = Inl KeyError"
  by (simp add: prepare_and_setup_constraints_def setup_constraint_functions_def
      GeologicalKnowledge_init_def getitem_def function_map_getitem_def)

text \<open>
  C7, as the code has it.  Whenever some entry is not a bounded record, the call
  returns an error and no list of descriptors.  The error is raised at the first such
  entry, all entries before it having been processed: \<open>TypeError\<close> when that entry is
  not a dictionary, \<open>KeyError\<close> when it is a dictionary that lacks one of \<open>lb\<close>, \<open>ub\<close>,
  \<open>mu\<close>, \<open>sigma\<close> or is stored under a key outside the function map.
\<close>

theorem restricted_constraints_all_or_nothing:
  assumes "\<exists>item \<in> set (constraints self). \<not> bounded_record item"
  shows "\<exists>pre name info post.
           constraints self = pre @ (name, info) # post \<and>
           (\<forall>item \<in> set pre. bounded_record item) \<and>
           \<not> bounded_record (name, info) \<and>
           fst (prepare_and_setup_constraints self) =
             Inl (if isinstance_dict info then KeyError else TypeError)"
proof -
  let ?self' = "setup_constraint_functions self"
  have m: "constraint_function_map ?self' = Some fixed_function_map"
    by (simp add: setup_constraint_functions_fields)
  from assms obtain pre item post where
    s: "constraints self = pre @ item # post" and
    p: "\<forall>i \<in> set pre. bounded_record i" and n: "\<not> bounded_record item"
    by (auto dest!: split_list_first_prop)
  obtain name info where item: "item = (name, info)" by (cases item)
  have "prepare_loop ?self' (pre @ (name, info) # post) [] =
          prepare_loop ?self' ((name, info) # post) ([] @ map descriptor pre)"
    using m p by (rule prepare_loop_bounded_prefix)
  also have "\<dots> = Inl (if isinstance_dict info then KeyError else TypeError)"
    using m n unfolding item by (rule not_bounded_record_raises)
  finally have "fst (prepare_and_setup_constraints self) =
      Inl (if isinstance_dict info then KeyError else TypeError)"
    by (simp add: prepare_and_setup_constraints_def Let_def setup_constraint_functions_fields
        s item)
  with s p n item show ?thesis by blast
qed

theorem restricted_constraints_all_or_nothing_witness:
  "fst (prepare_and_setup_constraints
     (GeologicalKnowledge_init (\<lambda>xs th. []) (\<lambda>th. 0) (\<lambda>th. 0) [0, 1]
        [(''tightness'', PyDict [(''lb'', 30), (''ub'', 60), (''mu'', 45), (''sigma'', 5), (''w'', 1)]),
         (''asymmetry'', PyFloat 3)]))
   = Inl TypeError"
proof -
  let ?good = "(''tightness'',
     PyDict [(''lb'', 30), (''ub'', 60), (''mu'', 45), (''sigma'', 5), (''w'', 1)])"
  let ?bad = "(''asymmetry'', PyFloat 3)"
  let ?self = "GeologicalKnowledge_init (\<lambda>xs th. []) (\<lambda>th. 0) (\<lambda>th. 0) [0, 1] [?good, ?bad]"
  have g: "bounded_record ?good"
    by (simp add: bounded_record_def has_key_def fixed_function_map_def carries_def getitem_def)
  have b: "\<not> bounded_record ?bad"
    by (simp add: bounded_record_def)
  have c: "constraints ?self = [?good, ?bad]"
    by (simp add: GeologicalKnowledge_init_def)
  have "\<exists>item \<in> set (constraints ?self). \<not> bounded_record item"
    using b c by simp
  from restricted_constraints_all_or_nothing [OF this]
  obtain pre name info post where
    s: "constraints ?self = pre @ (name, info) # post" and
    p: "\<forall>item \<in> set pre. bounded_record item" and
    n: "\<not> bounded_record (name, info)" and
    r: "fst (prepare_and_setup_constraints ?self) =
          Inl (if isinstance_dict info then KeyError else TypeError)"
    by blast
  from s c have "(name, info) \<in> {?good, ?bad}"
    by (metis in_set_conv_decomp list.set(1) list.simps(15))
  with g n have "(name, info) = ?bad" by auto
  then have "\<not> isinstance_dict info" by simp
  with r show ?thesis by simp
qed

text \<open>
  C7 as stated fails: an entry that is a dictionary without the required fields raises
  \<open>KeyError\<close>, not a type error.
\<close>

theorem record_lacking_bounds_raises_key_error:
  "fst (prepare_and_setup_constraints
     (GeologicalKnowledge_init (\<lambda>xs th. []) (\<lambda>th. 0) (\<lambda>th. 0) [0, 1]
        [(''tightness'', PyDict [(''mu'', 45), (''sigma'', 5), (''w'', 1)])]))
   = Inl KeyError \<and> KeyError \<noteq> TypeError"
  by (simp add: prepare_and_setup_constraints_def setup_constraint_functions_def
      GeologicalKnowledge_init_def getitem_def)

section \<open>The total objective\<close>

text \<open>
  C4.  For a valid \<open>theta\<close> and an instance with the six recognised names, the total
  objective is the sum, accumulated from 0 in the declared order, of the values that
  the sub-objectives of the names present in the constraints dictionary return when
  computed on their own; a name that is absent contributes 0.  The total does not
  depend on the order in which the keys were inserted: any rearrangement of the
  dictionary's items gives the same total.
\<close>

theorem total_objective_is_sum_of_present_terms:
  assumes "check_fourier_parameters theta = Inr ()"
    and "constraint_names self =
           [''asymmetry'', ''tightness'', ''fold_wavelength'', ''axial_traces'',
            ''hinge_angle'', ''axis_wavelength'']"
    and "has_key (constraints self) ''asymmetry'' \<longrightarrow>
           fst (asymmetry_objective_function self theta) = Inr a"
    and "has_key (constraints self) ''tightness'' \<longrightarrow>
           fst (tightness_objective_function self theta) = Inr t"
    and "has_key (constraints self) ''fold_wavelength'' \<longrightarrow>
           fst (wavelength_objective_function self theta) = Inr fw"
    and "has_key (constraints self) ''axial_traces'' \<longrightarrow>
           fst (axial_trace_objective_function self theta) = Inr tr"
    and "has_key (constraints self) ''hinge_angle'' \<longrightarrow>
           fst (hinge_angle_objective_function self theta) = Inr h"
    and "has_key (constraints self) ''axis_wavelength'' \<longrightarrow>
           fst (axis_wavelength_objective_function self theta) = Inr aw"
  shows "fst (fst (call self theta)) =
           Inr (0 + (if has_key (constraints self) ''asymmetry'' then a else 0)
                  + (if has_key (constraints self) ''tightness'' then t else 0)
                  + (if has_key (constraints self) ''fold_wavelength'' then fw else 0)
                  + (if has_key (constraints self) ''axial_traces'' then tr else 0)
                  + (if has_key (constraints self) ''hinge_angle'' then h else 0)
                  + (if has_key (constraints self) ''axis_wavelength'' then aw else 0))
         \<and> (\<forall>cs'. mset cs' = mset (constraints self) \<and> distinct (map fst (constraints self)) \<longrightarrow>
                fst (fst (call (self\<lparr>constraints := cs'\<rparr>) theta)) = fst (fst (call self theta)))"
proof -
  let ?s = "setup_constraint_functions self"
  have m: "constraint_function_map ?s = Some fixed_function_map"
    and c: "constraints ?s = constraints self"
    by (simp_all add: setup_constraint_functions_fields)
  note step = call_loop_setup_step [OF m, unfolded c invoke_setup_constraint_functions]
  have 1: "fst (call_loop ?s theta (''asymmetry'' # keys) acc) =
      fst (call_loop ?s theta keys
        (acc + (if has_key (constraints self) ''asymmetry'' then a else 0)))" for keys acc
    using assms(3) by (intro step [of _ Asymmetry_objective_function])
      (simp add: fixed_function_map_def)
  have 2: "fst (call_loop ?s theta (''tightness'' # keys) acc) =
      fst (call_loop ?s theta keys
        (acc + (if has_key (constraints self) ''tightness'' then t else 0)))" for keys acc
    using assms(4) by (intro step [of _ Tightness_objective_function])
      (simp add: fixed_function_map_def)
  have 3: "fst (call_loop ?s theta (''fold_wavelength'' # keys) acc) =
      fst (call_loop ?s theta keys
        (acc + (if has_key (constraints self) ''fold_wavelength'' then fw else 0)))" for keys acc
    using assms(5) by (intro step [of _ Wavelength_objective_function])
      (simp add: fixed_function_map_def)
  have 4: "fst (call_loop ?s theta (''axial_traces'' # keys) acc) =
      fst (call_loop ?s theta keys
        (acc + (if has_key (constraints self) ''axial_traces'' then tr else 0)))" for keys acc
    using assms(6) by (intro step [of _ Axial_trace_objective_function])
      (simp add: fixed_function_map_def)
  have 5: "fst (call_loop ?s theta (''hinge_angle'' # keys) acc) =
      fst (call_loop ?s theta keys
        (acc + (if has_key (constraints self) ''hinge_angle'' then h else 0)))" for keys acc
    using assms(7) by (intro step [of _ Hinge_angle_objective_function])
      (simp add: fixed_function_map_def)
  have 6: "fst (call_loop ?s theta (''axis_wavelength'' # keys) acc) =
      fst (call_loop ?s theta keys
        (acc + (if has_key (constraints self) ''axis_wavelength'' then aw else 0)))" for keys acc
    using assms(8) by (intro step [of _ Axis_wavelength_objective_function])
      (simp add: fixed_function_map_def)
  have n: "constraint_names ?s = constraint_names self"
    by (simp add: setup_constraint_functions_fields)
  have total: "fst (fst (call self theta)) =
           Inr (0 + (if has_key (constraints self) ''asymmetry'' then a else 0)
                  + (if has_key (constraints self) ''tightness'' then t else 0)
                  + (if has_key (constraints self) ''fold_wavelength'' then fw else 0)
                  + (if has_key (constraints self) ''axial_traces'' then tr else 0)
                  + (if has_key (constraints self) ''hinge_angle'' then h else 0)
                  + (if has_key (constraints self) ''axis_wavelength'' then aw else 0))"
    unfolding call_def assms(1) Let_def sum.case fst_conv n assms(2) 1 2 3 4 5 6
    by (simp only: call_loop.simps ret_def fst_conv)
  have "fst (fst (call (self\<lparr>constraints := cs'\<rparr>) theta)) = fst (fst (call self theta))"
    if p: "mset cs' = mset (constraints self)" and d: "distinct (map fst (constraints self))"
    for cs'
  proof -
    from total obtain v where v: "fst (fst (call self theta)) = Inr v" by blast
    then have "fst (call_loop ?s theta (constraint_names self) 0) = Inr v"
      by (simp add: call_def assms(1) Let_def n)
    with p d have k: "fst (call_loop (?s\<lparr>constraints := cs'\<rparr>) theta (constraint_names self) 0) = Inr v"
      by (intro call_loop_permuted) (simp_all add: c)
    have e: "setup_constraint_functions (self\<lparr>constraints := cs'\<rparr>) = ?s\<lparr>constraints := cs'\<rparr>"
      by (simp add: setup_constraint_functions_def)
    have "fst (fst (call (self\<lparr>constraints := cs'\<rparr>) theta)) =
        fst (call_loop (?s\<lparr>constraints := cs'\<rparr>) theta (constraint_names self) 0)"
      unfolding call_def assms(1) Let_def sum.case fst_conv e by (simp add: n)
    with k v show ?thesis by simp
  qed
  with total show ?thesis by blast
qed

theorem total_objective_is_sum_of_present_terms_witness:
  "fst (fst (call
     (GeologicalKnowledge_init (\<lambda>xs th. [0, 10]) (\<lambda>th. 45) (\<lambda>th. 0) [0, 1]
        [(''tightness'', PyDict [(''mu'', 45), (''sigma'', 5), (''w'', 1)]),
         (''fold_wavelength'', PyDict [(''mu'', 10), (''sigma'', 2), (''w'', 2)])])
     (Ndarray [1, 2, 3, 10])))
   = Inr (- gaussian_log_likelihood 45 45 5 + - gaussian_log_likelihood 10 10 2 * 2)
   \<and> fst (fst (call
     (GeologicalKnowledge_init (\<lambda>xs th. [0, 10]) (\<lambda>th. 45) (\<lambda>th. 0) [0, 1]
        [(''fold_wavelength'', PyDict [(''mu'', 10), (''sigma'', 2), (''w'', 2)]),
         (''tightness'', PyDict [(''mu'', 45), (''sigma'', 5), (''w'', 1)])])
     (Ndarray [1, 2, 3, 10])))
   = Inr (- gaussian_log_likelihood 45 45 5 + - gaussian_log_likelihood 10 10 2 * 2)"
proof -
  let ?t = "(''tightness'', PyDict [(''mu'', 45), (''sigma'', 5), (''w'', 1)])"
  let ?w = "(''fold_wavelength'', PyDict [(''mu'', 10), (''sigma'', 2), (''w'', 2)])"
  let ?self = "GeologicalKnowledge_init (\<lambda>xs th. [0, 10]) (\<lambda>th. 45) (\<lambda>th. 0) [0, 1] [?t, ?w]"
  let ?theta = "Ndarray [1, 2, 3, 10]"
  have v: "check_fourier_parameters ?theta = Inr ()"
    by (simp add: check_fourier_parameters_def)
  have n: "constraint_names ?self =
           [''asymmetry'', ''tightness'', ''fold_wavelength'', ''axial_traces'',
            ''hinge_angle'', ''axis_wavelength'']"
    by (simp add: GeologicalKnowledge_init_def)
  have c: "constraints ?self = [?t, ?w]"
    by (simp add: GeologicalKnowledge_init_def)
  have k: "\<not> has_key (constraints ?self) ''asymmetry''"
    "has_key (constraints ?self) ''tightness''"
    "has_key (constraints ?self) ''fold_wavelength''"
    "\<not> has_key (constraints ?self) ''axial_traces''"
    "\<not> has_key (constraints ?self) ''hinge_angle''"
    "\<not> has_key (constraints ?self) ''axis_wavelength''"
    by (simp_all add: c has_key_def)
  have t: "fst (tightness_objective_function ?self ?theta) =
      Inr (- gaussian_log_likelihood 45 45 5)"
    by (simp add: tightness_objective_function_def run_defs v constraint_field_def getitem_def
        GeologicalKnowledge_init_def)
  have w: "fst (wavelength_objective_function ?self ?theta) =
      Inr (- gaussian_log_likelihood 10 10 2 * 2)"
    by (simp add: wavelength_objective_function_def run_defs v constraint_field_def getitem_def
        GeologicalKnowledge_init_def)
  note r = total_objective_is_sum_of_present_terms [OF v n, of 0
      "- gaussian_log_likelihood 45 45 5" "- gaussian_log_likelihood 10 10 2 * 2" 0 0 0]
  have r': "fst (fst (call ?self ?theta)) =
      Inr (- gaussian_log_likelihood 45 45 5 + - gaussian_log_likelihood 10 10 2 * 2)
    \<and> (\<forall>cs'. mset cs' = mset (constraints ?self) \<and> distinct (map fst (constraints ?self)) \<longrightarrow>
          fst (fst (call (?self\<lparr>constraints := cs'\<rparr>) ?theta)) = fst (fst (call ?self ?theta)))"
    using r k t w by simp
  have p: "mset [?w, ?t] = mset (constraints ?self) \<and> distinct (map fst (constraints ?self))"
    by (simp add: c)
  have e: "?self\<lparr>constraints := [?w, ?t]\<rparr> =
      GeologicalKnowledge_init (\<lambda>xs th. [0, 10]) (\<lambda>th. 45) (\<lambda>th. 0) [0, 1] [?w, ?t]"
    by (simp add: GeologicalKnowledge_init_def)
  from r' p have "fst (fst (call (?self\<lparr>constraints := [?w, ?t]\<rparr>) ?theta)) =
      fst (fst (call ?self ?theta))"
    by blast
  with r' show ?thesis unfolding e by simp
qed

section \<open>Frame of the two operations\<close>

text \<open>
  C10.  The total objective and the restricted-mode construction change no field of
  the instance other than \<open>constraint_function_map\<close>; in particular \<open>x\<close> and
  \<open>constraints\<close> are left as they were.  Whenever the map is written it becomes the
  same six-entry dictionary: always in the construction, and in the total objective as
  soon as \<open>theta\<close> has passed validation.  Evaluating the total objective a second time
  on the instance the first evaluation left, with the same \<open>theta\<close>, gives the same
  result.
\<close>

theorem objective_calls_leave_inputs_untouched:
  "snd (call self theta) =
     self\<lparr>constraint_function_map := constraint_function_map (snd (call self theta))\<rparr>
   \<and> x_coords (snd (call self theta)) = x_coords self
   \<and> constraints (snd (call self theta)) = constraints self
   \<and> (constraint_function_map (snd (call self theta)) = constraint_function_map self
      \<or> constraint_function_map (snd (call self theta)) = Some fixed_function_map)
   \<and> (check_fourier_parameters theta = Inr () \<longrightarrow>
        constraint_function_map (snd (call self theta)) = Some fixed_function_map)
   \<and> snd (prepare_and_setup_constraints self) =
        self\<lparr>constraint_function_map := Some fixed_function_map\<rparr>
   \<and> x_coords (snd (prepare_and_setup_constraints self)) = x_coords self
   \<and> constraints (snd (prepare_and_setup_constraints self)) = constraints self
   \<and> fst (call (snd (call self theta)) theta) = fst (call self theta)"
proof (cases "check_fourier_parameters theta")
  case (Inl e)
  then show ?thesis
    by (simp add: call_def prepare_and_setup_constraints_def Let_def
        setup_constraint_functions_def fixed_function_map_def)
next
  case (Inr u)
  have "call_loop (setup_constraint_functions (setup_constraint_functions self)) theta
          (constraint_names self) 0 =
        call_loop (setup_constraint_functions self) theta (constraint_names self) 0"
    by (simp only: setup_constraint_functions_idem)
  with Inr show ?thesis
    by (simp add: call_def prepare_and_setup_constraints_def Let_def
        setup_constraint_functions_fields)
qed

theorem objective_calls_leave_inputs_untouched_witness:
  "check_fourier_parameters (Ndarray [1, 2, 3, 10]) = Inr ()
   \<and> constraint_function_map (snd (call
        (GeologicalKnowledge_init (\<lambda>xs th. [0, 10]) (\<lambda>th. 45) (\<lambda>th. 0) [0, 1]
           [(''tightness'', PyDict [(''mu'', 45), (''sigma'', 5), (''w'', 1)])])
        (Ndarray [1, 2, 3, 10]))) = Some fixed_function_map
   \<and> fst (call (snd (call
        (GeologicalKnowledge_init (\<lambda>xs th. [0, 10]) (\<lambda>th. 45) (\<lambda>th. 0) [0, 1]
           [(''tightness'', PyDict [(''mu'', 45), (''sigma'', 5), (''w'', 1)])])
        (Ndarray [1, 2, 3, 10]))) (Ndarray [1, 2, 3, 10]))
     = fst (call
        (GeologicalKnowledge_init (\<lambda>xs th. [0, 10]) (\<lambda>th. 45) (\<lambda>th. 0) [0, 1]
           [(''tightness'', PyDict [(''mu'', 45), (''sigma'', 5), (''w'', 1)])])
        (Ndarray [1, 2, 3, 10]))"
proof -
  have v: "check_fourier_parameters (Ndarray [1, 2, 3, 10]) = Inr ()"
    by (simp add: check_fourier_parameters_def)
  from v objective_calls_leave_inputs_untouched [of
      "GeologicalKnowledge_init (\<lambda>xs th. [0, 10]) (\<lambda>th. 45) (\<lambda>th. 0) [0, 1]
         [(''tightness'', PyDict [(''mu'', 45), (''sigma'', 5), (''w'', 1)])]"
      "Ndarray [1, 2, 3, 10]"]
  show ?thesis by blast
qed

end
